theory Spec2Isabelle
  imports Complex_Main
begin

section \<open>The numeric part of generate\_model.py\<close>

text \<open>
  The script computes with Python floats. The model keeps the exact real value of every
  operation: it does not round, and it has no infinities and no NaN. It is the program up to
  rounding only, and what is stated on it below is of the kinds that rounding cannot change:
  bounds at the script's own inputs that hold with a wide margin, raises at arguments where
  every intermediate float is exact, and which parameters a computation reads. Whether a
  result is exactly some value, or on which side of a bound it falls when the margin is of
  the size of a rounding error, is not decided by this model.

  What the model does keep is the control flow of Python's arithmetic, each raise being a
  branch: \<^verbatim>\<open>ZeroDivisionError\<close> on a division by zero and on zero raised to a negative
  power, \<^verbatim>\<open>OverflowError\<close> on an integer too large to convert to a float and on a power
  beyond the range of floats. Sums, products and quotients of floats do not raise when they
  overflow (they give an infinity), and that is outside the model.
\<close>

datatype py_error = ZeroDivisionError | OverflowError

text \<open>
  \<^verbatim>\<open>x ** k\<close> for a float \<open>x\<close> and an integer \<open>k\<close>. The integer is converted to a float
  first, which raises when it rounds beyond the largest float \<open>2 ^ 1024 - 2 ^ 971\<close>, that
  is from \<open>2 ^ 1024 - 2 ^ 970\<close> on. Zero to a negative power raises, and so does a result
  beyond the range of floats (the bound is that of a correctly rounded power; a power that
  underflows is zero and no error). For \<open>k\<close> beyond \<open>2 ^ 53\<close> the float exponent is \<open>k\<close>
  rounded; the model keeps \<open>k\<close>.
\<close>

definition py_pow :: "real \<Rightarrow> int \<Rightarrow> py_error + real" where
  "py_pow x k =
     (if 2 ^ 1024 - 2 ^ 970 \<le> \<bar>k\<bar> then Inl OverflowError
      else if x = 0 \<and> k < 0 then Inl ZeroDivisionError
      else if 2 ^ 1024 - 2 ^ 970 \<le> \<bar>x powi k\<bar> then Inl OverflowError
      else Inr (x powi k))"

text \<open>\<^verbatim>\<open>a / b\<close> for floats.\<close>

definition py_div :: "real \<Rightarrow> real \<Rightarrow> py_error + real" where
  "py_div a b = (if b = 0 then Inl ZeroDivisionError else Inr (a / b))"

text \<open>
  \<^verbatim>\<open>
  def pmt(r, n, pv):
      return r * pv / (1 - (1 + r) ** (-n))
  \<close>
  with floats \<open>r\<close> and \<open>pv\<close> and an integer \<open>n\<close>, as the script calls it. The product is
  evaluated first and cannot raise; the power and the division can.
\<close>

definition pmt :: "real \<Rightarrow> int \<Rightarrow> real \<Rightarrow> py_error + real" where
  "pmt r n pv =
     (case py_pow (1 + r) (- n) of
        Inl e \<Rightarrow> Inl e
      | Inr q \<Rightarrow> py_div (r * pv) (1 - q))"

text \<open>
  The assumptions of the script. They are module-level constants there; the record makes
  them an argument, and \<open>scenario\<close> below is the value the script fixes.
\<close>

record params =
  BuildMonths :: int
  OpsMonths :: int
  EPC :: real
  OMBase :: real
  Markup :: real
  InflAnnual :: real
  TownEAR :: real
  DebtEAR :: real
  TaxRate :: real
  DebtFrac :: real
  EquityFrac :: real

definition scenario :: params where
  "scenario =
     \<lparr>BuildMonths = 24, OpsMonths = 240, EPC = 62000000, OMBase = 325000,
      Markup = 10 / 100, InflAnnual = 2 / 100, TownEAR = 675 / 10000,
      DebtEAR = 4 / 100, TaxRate = 265 / 1000, DebtFrac = 60 / 100,
      EquityFrac = 40 / 100\<rparr>"

text \<open>
  \<^verbatim>\<open>(1 + ear) ** (1/12) - 1\<close>, the derived monthly rate, as the exact twelfth root. A
  float to a float power below one does not raise. Python leaves the reals when \<open>1 + ear\<close>
  is negative (the result is a complex number), so the model is the program for
  \<open>- 1 \<le> ear\<close> only, and up to rounding: for an annual rate of the size of a rounding
  error the float \<open>1 + ear\<close> is 1.0 and the monthly rate of the script is zero, where the
  exact root is positive. Nothing is stated below on such rates.
\<close>

definition monthly_rate :: "real \<Rightarrow> real" where
  "monthly_rate ear = (1 + ear) powr (1 / 12) - 1"

definition Town_m :: "params \<Rightarrow> real" where
  "Town_m p = monthly_rate (TownEAR p)"

definition Debt_m :: "params \<Rightarrow> real" where
  "Debt_m p = monthly_rate (DebtEAR p)"

definition Infl_m :: "params \<Rightarrow> real" where
  "Infl_m p = monthly_rate (InflAnnual p)"

definition town_payment :: "params \<Rightarrow> py_error + real" where
  "town_payment p = pmt (Town_m p) (OpsMonths p) (EPC p)"

definition debt_payment :: "params \<Rightarrow> py_error + real" where
  "debt_payment p = pmt (Debt_m p) (OpsMonths p) (EPC p * DebtFrac p)"

text \<open>
  The two summary figures are computed one after the other at import time; the first raise
  ends the run.
\<close>

definition summaries :: "params \<Rightarrow> py_error + real \<times> real" where
  "summaries p =
     (case town_payment p of
        Inl e \<Rightarrow> Inl e
      | Inr t \<Rightarrow> (case debt_payment p of Inl e \<Rightarrow> Inl e | Inr d \<Rightarrow> Inr (t, d)))"

section \<open>The workbook\<close>

text \<open>
  The schedules and statements are not computed by the script: it writes them as formulas
  into the cells of the workbook, and the spreadsheet program evaluates them. The model
  gives each column the value its formula has. A cell holds a number, a text (the headers
  of row 1, none of which reads as a number) or an error value (\<^verbatim>\<open>#VALUE!\<close>,
  \<^verbatim>\<open>#DIV/0!\<close>, \<^verbatim>\<open>#NUM!\<close>, \<^verbatim>\<open>#REF!\<close>; the model does not tell them apart).
  Numbers are exact reals, as in the numeric part. Columns are functions of the row number
  of the sheet, row 1 being the header row.

  The workbook is written after the two summary figures, so it exists only for parameters
  at which \<open>summaries\<close> does not raise, as at \<open>scenario\<close>.
\<close>

datatype cell = Num real | Txt string | XlError

text \<open>
  The operators \<^verbatim>\<open>+\<close>, \<^verbatim>\<open>-\<close> and \<^verbatim>\<open>*\<close> of a formula: an error operand gives an error, and
  so does a text that is not a number.
\<close>

definition xl_bin :: "(real \<Rightarrow> real \<Rightarrow> real) \<Rightarrow> cell \<Rightarrow> cell \<Rightarrow> cell" where
  "xl_bin f a b =
     (case a of
        Num x \<Rightarrow> (case b of Num y \<Rightarrow> Num (f x y) | Txt t \<Rightarrow> XlError | XlError \<Rightarrow> XlError)
      | Txt s \<Rightarrow> XlError
      | XlError \<Rightarrow> XlError)"

definition xl_add :: "cell \<Rightarrow> cell \<Rightarrow> cell" where
  "xl_add = xl_bin (+)"

definition xl_sub :: "cell \<Rightarrow> cell \<Rightarrow> cell" where
  "xl_sub = xl_bin (-)"

definition xl_mul :: "cell \<Rightarrow> cell \<Rightarrow> cell" where
  "xl_mul = xl_bin (*)"

definition xl_neg :: "cell \<Rightarrow> cell" where
  "xl_neg a = (case a of Num x \<Rightarrow> Num (- x) | Txt s \<Rightarrow> XlError | XlError \<Rightarrow> XlError)"

text \<open>
  \<^verbatim>\<open>b ^ k\<close> with a whole exponent \<open>k \<ge> 0\<close>; the spreadsheet has no value for \<open>0 ^ 0\<close>.
\<close>

definition xl_pow :: "cell \<Rightarrow> nat \<Rightarrow> cell" where
  "xl_pow a k =
     (case a of
        Num b \<Rightarrow> (if b = 0 \<and> k = 0 then XlError else Num (b ^ k))
      | Txt s \<Rightarrow> XlError
      | XlError \<Rightarrow> XlError)"

text \<open>
  \<^verbatim>\<open>IF(c>0, t, e)\<close>: an error in the condition is the result; a text compares greater
  than every number.
\<close>

definition xl_if_pos :: "cell \<Rightarrow> cell \<Rightarrow> cell \<Rightarrow> cell" where
  "xl_if_pos c t e =
     (case c of
        Num x \<Rightarrow> (if 0 < x then t else e)
      | Txt s \<Rightarrow> t
      | XlError \<Rightarrow> XlError)"

text \<open>
  \<^verbatim>\<open>IF($B>0, INDEX(Sheet!$X$2:$X$241, $B), 0)\<close> for a whole number \<open>k\<close> in column B: the
  range has 240 cells, the rows 2 to 241 of the column, and an index beyond it is an error.
\<close>

definition xl_lookup :: "(nat \<Rightarrow> cell) \<Rightarrow> int \<Rightarrow> cell" where
  "xl_lookup col k =
     (if 0 < k then (if k \<le> 240 then col (nat k + 1) else XlError) else Num 0)"

text \<open>
  \<^verbatim>\<open>PMT(rate, nper, pv)\<close> is a function of the spreadsheet program, not of the script.
  Modelled from its documentation: the payment is the solution \<open>pmt\<close> of
  \<open>pv * (1 + rate) ^ nper + pmt * ((1 + rate) ^ nper - 1) / rate = 0\<close>, and of
  \<open>pv + pmt * nper = 0\<close> at rate zero; where the equation has no solution, or the power
  no value, the model gives an error value. Nothing stated below depends on the value of
  a payment cell.
\<close>

definition xl_PMT :: "cell \<Rightarrow> int \<Rightarrow> real \<Rightarrow> cell" where
  "xl_PMT rate nper pv =
     (case rate of
        Num i \<Rightarrow>
          (if i = 0 then (if nper = 0 then XlError else Num (- pv / of_int nper))
           else if 1 + i = 0 \<and> nper \<le> 0 then XlError
           else if (1 + i) powi nper = 1 then XlError
           else Num (- (pv * (1 + i) powi nper * i) / ((1 + i) powi nper - 1)))
      | Txt s \<Rightarrow> XlError
      | XlError \<Rightarrow> XlError)"

subsection \<open>Inputs\<close>

text \<open>
  The sheet Inputs holds the assumptions as numbers in B2 to B12, and the names
  \<^verbatim>\<open>BuildMonths\<close>, ..., \<^verbatim>\<open>EquityFrac\<close> refer to these cells in the order of the record.
  B14 to B16 are formulas, \<^verbatim>\<open>=(1+$B$8)^(1/12)-1\<close> for \<^verbatim>\<open>Town_m\<close>, and the same on B9 for
  \<^verbatim>\<open>Debt_m\<close> and on B7 for \<^verbatim>\<open>Infl_m\<close>; a negative base has no such power in the
  spreadsheet. \<^verbatim>\<open>PaymentMonths\<close> is B19, \<^verbatim>\<open>=$B$3\<close>, the operating months.
\<close>

definition xl_monthly_rate :: "real \<Rightarrow> cell" where
  "xl_monthly_rate ear = (if 1 + ear < 0 then XlError else Num (monthly_rate ear))"

definition nm_Town_m :: "params \<Rightarrow> cell" where
  "nm_Town_m p = xl_monthly_rate (TownEAR p)"

definition nm_Debt_m :: "params \<Rightarrow> cell" where
  "nm_Debt_m p = xl_monthly_rate (DebtEAR p)"

definition nm_Infl_m :: "params \<Rightarrow> cell" where
  "nm_Infl_m p = xl_monthly_rate (InflAnnual p)"

definition PaymentMonths :: "params \<Rightarrow> int" where
  "PaymentMonths p = OpsMonths p"

subsection \<open>City\_Receivable\<close>

text \<open>
  \<^verbatim>\<open>
  tr.write_row("A1", ["OpMonth","Beg_Receivable","City_Payment","Interest_Revenue",
                      "Principal","End_Receivable"], hdr)
  for r in range(2, 242):
      tr.write_number(r-1,0,r-1,intf)
      tr.write_formula(r-1,1, "=IF(ROW()=2,EPC,OFFSET(F1,ROW()-3,0))", money)
      tr.write_formula(r-1,2, "=-PMT(Town_m,PaymentMonths,EPC)", money)
      tr.write_formula(r-1,3, f"=B{r}*Town_m", money)
      tr.write_formula(r-1,4, f"=C{r}-D{r}", money)
      tr.write_formula(r-1,5, f"=B{r}-E{r}", money)
  \<close>
  The first argument of \<^verbatim>\<open>write_formula\<close> counts rows from zero, so the formulas of one
  pass are those of sheet row \<open>r\<close>. The formula of column B is the same text in every row:
  \<^verbatim>\<open>OFFSET(F1, k, 0)\<close> is the cell \<open>k\<close> rows below F1, so in row \<open>r\<close> it is F in row
  \<open>1 + (r - 3) = r - 2\<close>, and in row 3 it is F1 itself, the header. \<open>tr_End\<close> is column F
  from row 1 on; the other formulas of a row are inlined in it, and \<open>tr_Beg\<close>, \<open>tr_Int\<close>
  and \<open>tr_Princ\<close> name them (\<open>tr_End_step\<close> below).
\<close>

definition tr_Pay :: "params \<Rightarrow> cell" where
  "tr_Pay p = xl_neg (xl_PMT (nm_Town_m p) (PaymentMonths p) (EPC p))"

fun tr_End :: "params \<Rightarrow> nat \<Rightarrow> cell" where
  "tr_End p r =
     (if r \<le> 1 then Txt ''End_Receivable''
      else
        let beg = (if r = 2 then Num (EPC p) else tr_End p (r - 2));
            intr = xl_mul beg (nm_Town_m p);
            princ = xl_sub (tr_Pay p) intr
        in xl_sub beg princ)"

definition tr_Beg :: "params \<Rightarrow> nat \<Rightarrow> cell" where
  "tr_Beg p r = (if r = 2 then Num (EPC p) else tr_End p (r - 2))"

definition tr_Int :: "params \<Rightarrow> nat \<Rightarrow> cell" where
  "tr_Int p r = xl_mul (tr_Beg p r) (nm_Town_m p)"

definition tr_Princ :: "params \<Rightarrow> nat \<Rightarrow> cell" where
  "tr_Princ p r = xl_sub (tr_Pay p) (tr_Int p r)"

text \<open>The column End\_Receivable as the loop writes it, rows 2 to 241.\<close>

definition tr_End_column :: "params \<Rightarrow> cell list" where
  "tr_End_column p = map (tr_End p) [2..<242]"

subsection \<open>Debt\_Schedule\<close>

text \<open>
  \<^verbatim>\<open>
  for r in range(2, 242):
      ds.write_formula(r-1,1, "=IF(ROW()=2,EPC*DebtFrac,OFFSET(F1,ROW()-3,0))", money)
      ds.write_formula(r-1,2, "=-PMT(Debt_m,PaymentMonths,EPC*DebtFrac)", money)
      ds.write_formula(r-1,3, f"=B{r}*Debt_m", money)
      ds.write_formula(r-1,4, f"=C{r}-D{r}", money)
      ds.write_formula(r-1,5, f"=B{r}-E{r}", money)
  \<close>
  with \<^verbatim>\<open>End_Debt\<close> in F1.
\<close>

definition ds_Pay :: "params \<Rightarrow> cell" where
  "ds_Pay p = xl_neg (xl_PMT (nm_Debt_m p) (PaymentMonths p) (EPC p * DebtFrac p))"

fun ds_End :: "params \<Rightarrow> nat \<Rightarrow> cell" where
  "ds_End p r =
     (if r \<le> 1 then Txt ''End_Debt''
      else
        let beg = (if r = 2 then Num (EPC p * DebtFrac p) else ds_End p (r - 2));
            intr = xl_mul beg (nm_Debt_m p);
            princ = xl_sub (ds_Pay p) intr
        in xl_sub beg princ)"

definition ds_Beg :: "params \<Rightarrow> nat \<Rightarrow> cell" where
  "ds_Beg p r = (if r = 2 then Num (EPC p * DebtFrac p) else ds_End p (r - 2))"

definition ds_Int :: "params \<Rightarrow> nat \<Rightarrow> cell" where
  "ds_Int p r = xl_mul (ds_Beg p r) (nm_Debt_m p)"

definition ds_Princ :: "params \<Rightarrow> nat \<Rightarrow> cell" where
  "ds_Princ p r = xl_sub (ds_Pay p) (ds_Int p r)"

subsection \<open>OM\<close>

text \<open>
  \<^verbatim>\<open>
  for r in range(2, 242):
      om.write_number(r-1,0,r-1,intf)
      om.write_formula(r-1,1, f"=OMBase*(1+Infl_m)^(A{r}-1)", money)
      om.write_formula(r-1,2, f"=B{r}*(1+Markup)", money)
  \<close>
  Column A holds \<open>r - 1\<close>, so the exponent is \<open>r - 2\<close>.
\<close>

definition om_Cost :: "params \<Rightarrow> nat \<Rightarrow> cell" where
  "om_Cost p r = xl_mul (Num (OMBase p)) (xl_pow (xl_add (Num 1) (nm_Infl_m p)) (r - 2))"

definition om_Rev :: "params \<Rightarrow> nat \<Rightarrow> cell" where
  "om_Rev p r = xl_mul (om_Cost p r) (Num (1 + Markup p))"

subsection \<open>IS\_Monthly\<close>

text \<open>
  \<^verbatim>\<open>
  for r in range(2, 266):
      isf.write_number(r-1,0,r-1,intf)
      isf.write_formula(r-1,1, f"=IF(A{r}>BuildMonths,A{r}-BuildMonths,0)", intf)
      isf.write_formula(r-1,2, f"=IF($B{r}>0, INDEX(City_Receivable!$D$2:$D$241,$B{r}), 0)", money)
      isf.write_formula(r-1,3, f"=IF($B{r}>0, INDEX(OM!$C$2:$C$241,$B{r}), 0)", money)
      isf.write_formula(r-1,4, f"=C{r}+D{r}", money)
      isf.write_formula(r-1,5, f"=IF($B{r}>0, INDEX(OM!$B$2:$B$241,$B{r}), 0)", money)
      isf.write_formula(r-1,6, f"=E{r}-F{r}", money)
      isf.write_formula(r-1,7, f"=IF($B{r}>0, INDEX(Debt_Schedule!$D$2:$D$241,$B{r}), 0)", money)
      isf.write_formula(r-1,8, f"=G{r}-H{r}", money)
      isf.write_formula(r-1,9, f"=IF(I{r}>0, I{r}*TaxRate, 0)", money)
      isf.write_formula(r-1,10,f"=I{r}-J{r}", money)
  \<close>
  Row \<open>r\<close> is the calendar month \<open>r - 1\<close>, the number in column A.
\<close>

definition Month :: "nat \<Rightarrow> int" where
  "Month r = int r - 1"

definition is_OpIndex :: "params \<Rightarrow> nat \<Rightarrow> int" where
  "is_OpIndex p r = (if Month r > BuildMonths p then Month r - BuildMonths p else 0)"

definition is_IntRev :: "params \<Rightarrow> nat \<Rightarrow> cell" where
  "is_IntRev p r = xl_lookup (tr_Int p) (is_OpIndex p r)"

definition is_OMRev :: "params \<Rightarrow> nat \<Rightarrow> cell" where
  "is_OMRev p r = xl_lookup (om_Rev p) (is_OpIndex p r)"

definition is_TotalRev :: "params \<Rightarrow> nat \<Rightarrow> cell" where
  "is_TotalRev p r = xl_add (is_IntRev p r) (is_OMRev p r)"

definition is_OMCost :: "params \<Rightarrow> nat \<Rightarrow> cell" where
  "is_OMCost p r = xl_lookup (om_Cost p) (is_OpIndex p r)"

definition is_EBIT :: "params \<Rightarrow> nat \<Rightarrow> cell" where
  "is_EBIT p r = xl_sub (is_TotalRev p r) (is_OMCost p r)"

definition is_DebtInt :: "params \<Rightarrow> nat \<Rightarrow> cell" where
  "is_DebtInt p r = xl_lookup (ds_Int p) (is_OpIndex p r)"

definition is_EBT :: "params \<Rightarrow> nat \<Rightarrow> cell" where
  "is_EBT p r = xl_sub (is_EBIT p r) (is_DebtInt p r)"

definition is_Tax :: "params \<Rightarrow> nat \<Rightarrow> cell" where
  "is_Tax p r = xl_if_pos (is_EBT p r) (xl_mul (is_EBT p r) (Num (TaxRate p))) (Num 0)"

definition is_NetIncome :: "params \<Rightarrow> nat \<Rightarrow> cell" where
  "is_NetIncome p r = xl_sub (is_EBT p r) (is_Tax p r)"

subsection \<open>CF\_Monthly\<close>

text \<open>
  \<^verbatim>\<open>
  cf.write_row("A1", ["Month","CFO","CFI","CFF","Net_Change","Cash_Balance"], hdr)
  for r in range(2, 266):
      cf.write_number(r-1,0,r-1,intf)
      cf.write_formula(r-1,1, f"=IS_Monthly!K{r} + IF(IS_Monthly!$B{r}>0,
          INDEX(City_Receivable!$E$2:$E$241, IS_Monthly!$B{r}), 0)", money)
      cf.write_formula(r-1,2, f"=IF(A{r}=BuildMonths,-EPC,0)", money)
      cf.write_formula(r-1,3, f"=IF(A{r}=BuildMonths,EPC*DebtFrac+EPC*EquityFrac,0)
          - IF(IS_Monthly!$B{r}>0, INDEX(Debt_Schedule!$E$2:$E$241, IS_Monthly!$B{r}), 0)", money)
      cf.write_formula(r-1,4, f"=B{r}+C{r}+D{r}", money)
      cf.write_formula(r-1,5, f"=IF(ROW()=2,E{r},OFFSET(F1,ROW()-3,0)+E{r})", money)
  \<close>
  (the long formula texts are folded in this listing and in the next).
\<close>

definition cf_CFO :: "params \<Rightarrow> nat \<Rightarrow> cell" where
  "cf_CFO p r = xl_add (is_NetIncome p r) (xl_lookup (tr_Princ p) (is_OpIndex p r))"

definition cf_CFI :: "params \<Rightarrow> nat \<Rightarrow> cell" where
  "cf_CFI p r = (if Month r = BuildMonths p then Num (- EPC p) else Num 0)"

definition cf_CFF :: "params \<Rightarrow> nat \<Rightarrow> cell" where
  "cf_CFF p r =
     xl_sub
       (if Month r = BuildMonths p then Num (EPC p * DebtFrac p + EPC p * EquityFrac p)
        else Num 0)
       (xl_lookup (ds_Princ p) (is_OpIndex p r))"

definition cf_Net :: "params \<Rightarrow> nat \<Rightarrow> cell" where
  "cf_Net p r = xl_add (xl_add (cf_CFO p r) (cf_CFI p r)) (cf_CFF p r)"

fun cf_Cash :: "params \<Rightarrow> nat \<Rightarrow> cell" where
  "cf_Cash p r =
     (if r \<le> 1 then Txt ''Cash_Balance''
      else if r = 2 then cf_Net p r
      else xl_add (cf_Cash p (r - 2)) (cf_Net p r))"

subsection \<open>BS\_Monthly\<close>

text \<open>
  \<^verbatim>\<open>
  bs.write_row("A1", ["Month","Cash","Receivable","Total_Assets","Debt","Paid_in_Equity",
                      "Retained_Earnings","Total_Eq","Liab+Eq","Balance_Check"], hdr)
  for r in range(2, 266):
      bs.write_number(r-1,0,r-1,intf)
      bs.write_formula(r-1,1, f"=CF_Monthly!F{r}", money)
      bs.write_formula(r-1,2, f"=IF(A{r}<BuildMonths,0, IF(A{r}=BuildMonths,EPC,
          IF(IS_Monthly!$B{r}>0, INDEX(City_Receivable!$F$2:$F$241, IS_Monthly!$B{r}), 0)))", money)
      bs.write_formula(r-1,3, f"=B{r}+C{r}", money)
      bs.write_formula(r-1,4, f"=IF(A{r}<BuildMonths,0, IF(A{r}=BuildMonths,EPC*DebtFrac,
          IF(IS_Monthly!$B{r}>0, INDEX(Debt_Schedule!$F$2:$F$241, IS_Monthly!$B{r}), 0)))", money)
      bs.write_formula(r-1,5, f"=IF(A{r}<BuildMonths,0, EPC*EquityFrac)", money)
      bs.write_formula(r-1,6, f"=IF(ROW()=2,IS_Monthly!K{r},
          OFFSET(G1,ROW()-3,0)+IS_Monthly!K{r})", money)
      bs.write_formula(r-1,7, f"=F{r}+G{r}", money)
      bs.write_formula(r-1,8, f"=E{r}+H{r}", money)
      bs.write_formula(r-1,9, f"=D{r}-I{r}", money)
  \<close>
\<close>

definition bs_Cash :: "params \<Rightarrow> nat \<Rightarrow> cell" where
  "bs_Cash p r = cf_Cash p r"

definition bs_Receivable :: "params \<Rightarrow> nat \<Rightarrow> cell" where
  "bs_Receivable p r =
     (if Month r < BuildMonths p then Num 0
      else if Month r = BuildMonths p then Num (EPC p)
      else xl_lookup (tr_End p) (is_OpIndex p r))"

definition bs_Assets :: "params \<Rightarrow> nat \<Rightarrow> cell" where
  "bs_Assets p r = xl_add (bs_Cash p r) (bs_Receivable p r)"

definition bs_Debt :: "params \<Rightarrow> nat \<Rightarrow> cell" where
  "bs_Debt p r =
     (if Month r < BuildMonths p then Num 0
      else if Month r = BuildMonths p then Num (EPC p * DebtFrac p)
      else xl_lookup (ds_End p) (is_OpIndex p r))"

definition bs_PaidIn :: "params \<Rightarrow> nat \<Rightarrow> cell" where
  "bs_PaidIn p r = (if Month r < BuildMonths p then Num 0 else Num (EPC p * EquityFrac p))"

fun bs_Retained :: "params \<Rightarrow> nat \<Rightarrow> cell" where
  "bs_Retained p r =
     (if r \<le> 1 then Txt ''Retained_Earnings''
      else if r = 2 then is_NetIncome p r
      else xl_add (bs_Retained p (r - 2)) (is_NetIncome p r))"

definition bs_TotalEq :: "params \<Rightarrow> nat \<Rightarrow> cell" where
  "bs_TotalEq p r = xl_add (bs_PaidIn p r) (bs_Retained p r)"

definition bs_LiabEq :: "params \<Rightarrow> nat \<Rightarrow> cell" where
  "bs_LiabEq p r = xl_add (bs_Debt p r) (bs_TotalEq p r)"

definition bs_Check :: "params \<Rightarrow> nat \<Rightarrow> cell" where
  "bs_Check p r = xl_sub (bs_Assets p r) (bs_LiabEq p r)"

text \<open>The column Balance\_Check as the loop writes it, rows 2 to 265.\<close>

definition bs_Check_column :: "params \<Rightarrow> cell list" where
  "bs_Check_column p = map (bs_Check p) [2..<266]"

subsection \<open>Levered\_DCF\_IRR\<close>

text \<open>
  The sheet lists the equity cash flows in B2 to B265 and leaves the rate to the
  spreadsheet program, \<^verbatim>\<open>irr.write_formula("E2","=IRR(B2:B265)")\<close>. The script holds no
  root finder of its own, so there is nothing of it to model here.
\<close>

section \<open>Arithmetic on cells\<close>

declare tr_End.simps [simp del] ds_End.simps [simp del] cf_Cash.simps [simp del]
  bs_Retained.simps [simp del]

lemma xl_bin_Txt [simp]: "xl_bin f (Txt s) b = XlError"
  by (simp add: xl_bin_def)

lemma xl_bin_XlError [simp]: "xl_bin f XlError b = XlError"
  by (simp add: xl_bin_def)

lemma xl_bin_XlError2 [simp]: "xl_bin f a XlError = XlError"
  by (cases a) (simp_all add: xl_bin_def)

lemma xl_bin_Num [simp]: "xl_bin f (Num x) (Num y) = Num (f x y)"
  by (simp add: xl_bin_def)

section \<open>The level payment at the inputs of the script\<close>

lemma Town_m_scenario_power: "(1 + Town_m scenario) ^ 12 = 10675 / 10000"
  by (simp add: Town_m_def monthly_rate_def scenario_def powr_power)

lemma Town_m_scenario_nonneg: "0 \<le> 1 + Town_m scenario"
  by (simp add: Town_m_def scenario_def monthly_rate_def)

lemma Town_m_scenario_lower: "5458130 / 10 ^ 9 < Town_m scenario"
proof -
  have "((1005458130 / 10 ^ 9) :: real) ^ 12 < (1 + Town_m scenario) ^ 12"
    unfolding Town_m_scenario_power by (simp add: power_divide)
  then have "(1005458130 / 10 ^ 9 :: real) < 1 + Town_m scenario"
    using Town_m_scenario_nonneg by (rule power_less_imp_less_base)
  then show ?thesis by simp
qed

lemma Town_m_scenario_upper: "Town_m scenario < 5458131 / 10 ^ 9"
proof -
  have "(1 + Town_m scenario) ^ 12 < ((1005458131 / 10 ^ 9) :: real) ^ 12"
    unfolding Town_m_scenario_power by (simp add: power_divide)
  then have "1 + Town_m scenario < (1005458131 / 10 ^ 9 :: real)"
    by (rule power_less_imp_less_base) simp
  then show ?thesis by simp
qed

lemma Town_m_scenario_240: "(1 + Town_m scenario) ^ 240 = (10675 / 10000) ^ 20"
proof -
  have "(1 + Town_m scenario) ^ 240 = ((1 + Town_m scenario) ^ 12) ^ 20"
    by (simp flip: power_mult)
  then show ?thesis
    by (simp only: Town_m_scenario_power)
qed

lemma Debt_m_scenario_power: "(1 + Debt_m scenario) ^ 12 = 104 / 100"
  by (simp add: Debt_m_def monthly_rate_def scenario_def powr_power)

lemma Debt_m_scenario_pos: "0 < Debt_m scenario"
  by (simp add: Debt_m_def monthly_rate_def scenario_def)

lemma Debt_m_scenario_240: "(1 + Debt_m scenario) ^ 240 = (104 / 100) ^ 20"
proof -
  have "(1 + Debt_m scenario) ^ 240 = ((1 + Debt_m scenario) ^ 12) ^ 20"
    by (simp flip: power_mult)
  then show ?thesis
    by (simp only: Debt_m_scenario_power)
qed

text \<open>The power in \<open>pmt\<close> at the two rates of the scenario and 240 periods.\<close>

lemma py_pow_town: "py_pow (1 + Town_m scenario) (- 240) = Inr (inverse ((10675 / 10000) ^ 20))"
proof -
  have nz: "1 + Town_m scenario \<noteq> 0"
    using Town_m_scenario_lower by simp
  have v: "(1 + Town_m scenario) powi (- 240) = inverse ((10675 / 10000) ^ 20)"
    by (simp add: power_int_minus Town_m_scenario_240)
  have "\<bar>inverse ((10675 / 10000 :: real) ^ 20)\<bar> < 2 ^ 1024 - 2 ^ 970"
    by (simp add: power_divide)
  then show ?thesis
    using nz by (simp add: py_pow_def v)
qed

lemma py_pow_debt: "py_pow (1 + Debt_m scenario) (- 240) = Inr (inverse ((104 / 100) ^ 20))"
proof -
  have nz: "1 + Debt_m scenario \<noteq> 0"
    using Debt_m_scenario_pos by simp
  have v: "(1 + Debt_m scenario) powi (- 240) = inverse ((104 / 100) ^ 20)"
    by (simp add: power_int_minus Debt_m_scenario_240)
  have "\<bar>inverse ((104 / 100 :: real) ^ 20)\<bar> < 2 ^ 1024 - 2 ^ 970"
    by (simp add: power_divide)
  then show ?thesis
    using nz by (simp add: py_pow_def v)
qed

lemma town_payment_scenario:
  "town_payment scenario =
     Inr (Town_m scenario * 62000000 / (1 - inverse ((10675 / 10000) ^ 20)))"
proof -
  have "(1::real) - inverse ((10675 / 10000) ^ 20) \<noteq> 0"
    by (simp add: power_divide)
  then have "pmt (Town_m scenario) 240 62000000 =
      Inr (Town_m scenario * 62000000 / (1 - inverse ((10675 / 10000) ^ 20)))"
    by (simp add: pmt_def py_pow_town py_div_def)
  then show ?thesis
    by (simp add: town_payment_def scenario_def)
qed

lemma debt_payment_scenario:
  "debt_payment scenario =
     Inr (Debt_m scenario * (62000000 * (60 / 100)) / (1 - inverse ((104 / 100) ^ 20)))"
proof -
  have "(1::real) - inverse ((104 / 100) ^ 20) \<noteq> 0"
    by (simp add: power_divide)
  then have "pmt (Debt_m scenario) 240 (62000000 * (60 / 100)) =
      Inr (Debt_m scenario * (62000000 * (60 / 100)) / (1 - inverse ((104 / 100) ^ 20)))"
    by (simp add: pmt_def py_pow_debt py_div_def)
  then show ?thesis
    by (simp add: debt_payment_def scenario_def)
qed

section \<open>A zero rate\<close>

text \<open>
  C5 as the specification states it: with a rate of exactly zero the payment is
  \<open>principal / periods\<close> and nothing divides by zero. The function has no such branch: at
  rate zero, 240 periods and the principal of the scenario it raises.
\<close>

theorem pmt_zero_rate_counterexample:
  "pmt 0 240 62000000 = Inl ZeroDivisionError \<and> pmt 0 240 62000000 \<noteq> Inr (62000000 / 240)"
  by (simp add: pmt_def py_pow_def py_div_def)

text \<open>
  C5, amended: with a rate of exactly zero the level payment is never computed and no
  limiting formula is used. For every principal the function raises
  \<^verbatim>\<open>ZeroDivisionError\<close> when the number of periods converts to a float, that is when its
  absolute value is below \<open>2 ^ 1024 - 2 ^ 970\<close>, and \<^verbatim>\<open>OverflowError\<close> when it does not.
  At rate zero every float on the way is exact: \<open>1 + 0.0\<close> is 1.0, its power is 1.0, and
  the denominator is 0.0.
\<close>

theorem pmt_zero_rate_raises:
  "pmt 0 n pv =
     Inl (if 2 ^ 1024 - 2 ^ 970 \<le> \<bar>n\<bar> then OverflowError else ZeroDivisionError)"
  by (simp add: pmt_def py_pow_def py_div_def)

section \<open>Parameter validation\<close>

text \<open>
  Neither summary figure reads the equity fraction or the number of construction months.
\<close>

lemma town_payment_reads:
  "town_payment (p\<lparr>EquityFrac := e\<rparr>) = town_payment p"
  "town_payment (p\<lparr>BuildMonths := b\<rparr>) = town_payment p"
  by (simp_all add: town_payment_def Town_m_def)

lemma debt_payment_reads:
  "debt_payment (p\<lparr>EquityFrac := e\<rparr>) = debt_payment p"
  "debt_payment (p\<lparr>BuildMonths := b\<rparr>) = debt_payment p"
  by (simp_all add: debt_payment_def Debt_m_def)

lemma summaries_reads:
  "summaries (p\<lparr>EquityFrac := e\<rparr>) = summaries p"
  "summaries (p\<lparr>BuildMonths := b\<rparr>) = summaries p"
  by (simp_all only: summaries_def town_payment_reads debt_payment_reads)

lemma summaries_scenario:
  "summaries scenario =
     Inr (Town_m scenario * 62000000 / (1 - inverse ((10675 / 10000) ^ 20)),
          Debt_m scenario * (62000000 * (60 / 100)) / (1 - inverse ((104 / 100) ^ 20)))"
  by (simp add: summaries_def town_payment_scenario debt_payment_scenario)

text \<open>
  C6 as the specification states it: parameters whose debt and equity fractions do not add
  up to one are detected and reported as an error. The script checks nothing: with the
  fractions 0.6 and 0.6 the two summary payments are computed as before.
\<close>

theorem no_parameter_validation_counterexample:
  "DebtFrac (scenario\<lparr>EquityFrac := 60 / 100\<rparr>) +
     EquityFrac (scenario\<lparr>EquityFrac := 60 / 100\<rparr>) \<noteq> 1 \<and>
   \<not> isl (summaries (scenario\<lparr>EquityFrac := 60 / 100\<rparr>))"
proof -
  have "summaries (scenario\<lparr>EquityFrac := 60 / 100\<rparr>) = summaries scenario"
    by (rule summaries_reads)
  then have "\<not> isl (summaries (scenario\<lparr>EquityFrac := 60 / 100\<rparr>))"
    by (simp add: summaries_scenario)
  then show ?thesis
    by (simp add: scenario_def)
qed

text \<open>The scenario with the operating months negated: both payments come out negative.\<close>

lemma summaries_negative_months:
  "\<exists>t d. summaries (scenario\<lparr>OpsMonths := - 240\<rparr>) = Inr (t, d) \<and> t < 0 \<and> d < 0"
proof -
  let ?p = "scenario\<lparr>OpsMonths := - 240\<rparr>"
  let ?T = "Town_m scenario" and ?D = "Debt_m scenario"
  have T: "0 < ?T"
    using Town_m_scenario_lower by simp
  have pt: "py_pow (1 + ?T) 240 = Inr ((10675 / 10000) ^ 20)"
  proof -
    have "\<bar>(10675 / 10000 :: real) ^ 20\<bar> < 2 ^ 1024 - 2 ^ 970"
      by (simp add: power_divide)
    then show ?thesis
      by (simp add: py_pow_def Town_m_scenario_240)
  qed
  have pd: "py_pow (1 + ?D) 240 = Inr ((104 / 100) ^ 20)"
  proof -
    have "\<bar>(104 / 100 :: real) ^ 20\<bar> < 2 ^ 1024 - 2 ^ 970"
      by (simp add: power_divide)
    then show ?thesis
      by (simp add: py_pow_def Debt_m_scenario_240)
  qed
  have dt: "(1::real) - (10675 / 10000) ^ 20 < 0" and dd: "(1::real) - (104 / 100) ^ 20 < 0"
    by (simp_all add: power_divide)
  have nt: "(10675 / 10000 :: real) ^ 20 \<noteq> 1" and nd: "(104 / 100 :: real) ^ 20 \<noteq> 1"
    by (simp_all add: power_divide)
  have "town_payment ?p = pmt ?T (- 240) 62000000"
    by (simp add: town_payment_def Town_m_def scenario_def)
  then have t: "town_payment ?p = Inr (?T * 62000000 / (1 - (10675 / 10000) ^ 20))"
    using nt by (simp add: pmt_def pt py_div_def)
  have "debt_payment ?p = pmt ?D (- 240) (62000000 * (60 / 100))"
    by (simp add: debt_payment_def Debt_m_def scenario_def)
  then have d: "debt_payment ?p = Inr (?D * (62000000 * (60 / 100)) / (1 - (104 / 100) ^ 20))"
    using nd by (simp add: pmt_def pd py_div_def)
  have "?T * 62000000 / (1 - (10675 / 10000) ^ 20) < 0"
    using T dt by (simp add: divide_pos_neg)
  moreover have "?D * (62000000 * (60 / 100)) / (1 - (104 / 100) ^ 20) < 0"
    using Debt_m_scenario_pos dd by (simp add: divide_pos_neg)
  ultimately show ?thesis
    by (simp add: summaries_def t d)
qed

text \<open>
  C6, amended: the script validates no parameter and has no error of its own for invalid
  parameters. The outcome of the summary computation, a pair of payments or an exception of
  Python's arithmetic, is the same whatever the equity fraction and the number of
  construction months are, so fractions that do not add up to one and a construction time
  of zero or less go unnoticed. A negative number of operating months goes unnoticed too:
  with the scenario's operating months negated both level payments are computed, as
  negative numbers, and nothing is raised.
\<close>

theorem summaries_without_validation:
  "summaries (p\<lparr>EquityFrac := e, BuildMonths := b\<rparr>) = summaries p \<and>
   (\<exists>t d. summaries (scenario\<lparr>OpsMonths := - 240\<rparr>) = Inr (t, d) \<and> t < 0 \<and> d < 0)"
proof
  show "summaries (p\<lparr>EquityFrac := e, BuildMonths := b\<rparr>) = summaries p"
    by (simp only: summaries_reads)
  show "\<exists>t d. summaries (scenario\<lparr>OpsMonths := - 240\<rparr>) = Inr (t, d) \<and> t < 0 \<and> d < 0"
    by (rule summaries_negative_months)
qed

section \<open>The figures of the scenario\<close>

lemma annuity_den_bounds:
  "(464073::real) * (1 - inverse ((10675 / 10000) ^ 20)) < 5458130 / 10 ^ 9 * 62000000"
  "(5458131::real) / 10 ^ 9 * 62000000 < 464074 * (1 - inverse ((10675 / 10000) ^ 20))"
  "(0::real) < 1 - inverse ((10675 / 10000) ^ 20)"
  by (simp_all add: power_divide)

lemma scenario_payment_bounds:
  "\<exists>p. town_payment scenario = Inr p \<and> 464073 < p \<and> p < 464074"
proof -
  let ?D = "1 - inverse ((10675 / 10000 :: real) ^ 20)"
  let ?T = "Town_m scenario"
  have "464073 * ?D < 5458130 / 10 ^ 9 * 62000000"
    by (rule annuity_den_bounds)
  also have "\<dots> < ?T * 62000000"
    using Town_m_scenario_lower by simp
  finally have lo: "464073 < ?T * 62000000 / ?D"
    using annuity_den_bounds(3) by (simp add: pos_less_divide_eq)
  have "?T * 62000000 < 5458131 / 10 ^ 9 * 62000000"
    using Town_m_scenario_upper by simp
  also have "\<dots> < 464074 * ?D"
    by (rule annuity_den_bounds)
  finally have hi: "?T * 62000000 / ?D < 464074"
    using annuity_den_bounds(3) by (simp add: pos_divide_less_eq)
  show ?thesis
    using lo hi by (simp only: town_payment_scenario) simp
qed

lemma scenario_interest_bounds:
  "338404 < EPC scenario * Town_m scenario" "EPC scenario * Town_m scenario < 338405"
  using Town_m_scenario_lower Town_m_scenario_upper by (simp_all add: scenario_def)

lemma nm_Town_m_scenario: "nm_Town_m scenario = Num (Town_m scenario)"
  by (simp add: nm_Town_m_def xl_monthly_rate_def Town_m_def scenario_def)

text \<open>
  C4 as the specification states it: in the scenario the level payment is 463,777 within
  one dollar and the interest of the first month is about 348,750. The script converts the
  annual rate by \<open>(1 + ear) ^ (1/12) - 1\<close>, and with that rate neither figure comes out:
  the payment is more than a dollar away and the interest more than 10,000 dollars.
\<close>

theorem scenario_figures_counterexample:
  "\<not> isl (town_payment scenario) \<and>
   \<not> \<bar>projr (town_payment scenario) - 463777\<bar> \<le> 1 \<and>
   \<not> \<bar>EPC scenario * Town_m scenario - 348750\<bar> \<le> 10000"
proof -
  obtain p where p: "town_payment scenario = Inr p" "464073 < p"
    using scenario_payment_bounds by blast
  show ?thesis
    using p scenario_interest_bounds by simp
qed

text \<open>
  C4, amended: for the principal 62,000,000, the city rate 6.75 percent converted to a
  monthly rate by \<open>(1 + ear) ^ (1/12) - 1\<close>, and 240 periods, the level payment is 464,073
  within one dollar, and the interest of the first month, principal times monthly rate,
  the value of D2 on City\_Receivable, is 338,404 within one dollar.
\<close>

theorem scenario_figures:
  "(\<exists>p. town_payment scenario = Inr p \<and> \<bar>p - 464073\<bar> \<le> 1) \<and>
   tr_Int scenario 2 = Num (EPC scenario * Town_m scenario) \<and>
   \<bar>EPC scenario * Town_m scenario - 338404\<bar> \<le> 1"
proof -
  obtain p where p: "town_payment scenario = Inr p" "464073 < p" "p < 464074"
    using scenario_payment_bounds by blast
  have "tr_Int scenario 2 = Num (EPC scenario * Town_m scenario)"
    by (simp add: tr_Int_def tr_Beg_def nm_Town_m_scenario xl_mul_def)
  then show ?thesis
    using p scenario_interest_bounds by simp
qed

section \<open>The chained columns of the workbook\<close>

lemma tr_End_header: "tr_End p (Suc 0) = Txt ''End_Receivable''"
  by (simp add: tr_End.simps)

lemma tr_End_step:
  "2 \<le> r \<Longrightarrow> tr_End p r = xl_sub (tr_Beg p r) (tr_Princ p r)"
  by (subst tr_End.simps) (simp add: tr_Beg_def tr_Princ_def tr_Int_def Let_def)

lemma tr_End_odd: "tr_End p (2 * k + 3) = XlError"
proof (induction k)
  case 0
  have "tr_Beg p 3 = Txt ''End_Receivable''"
    by (simp add: tr_Beg_def tr_End_header)
  then show ?case
    by (simp add: tr_End_step xl_sub_def)
next
  case (Suc k)
  have "tr_Beg p (2 * Suc k + 3) = tr_End p (2 * k + 3)"
    by (simp add: tr_Beg_def add.commute)
  with Suc show ?case
    by (simp add: tr_End_step xl_sub_def)
qed

lemma tr_End_column_length: "length (tr_End_column p) = 240"
  by (simp add: tr_End_column_def)

lemma tr_End_column_last: "last (tr_End_column p) = tr_End p 241"
  by (simp add: tr_End_column_def last_map)

text \<open>
  C2: the receivable schedule has one row for each of the 240 periods, each row begins at
  the ending balance of the row before, and the last ending balance is zero within
  tolerance. The sheet has the 240 rows, but its column B reads the ending balance two rows
  up: operating month 2 begins at the header text of F1, and the ending balance of the
  last operating month is an error value, not a number near zero.
\<close>

theorem receivable_final_balance_is_error:
  "length (tr_End_column scenario) = nat (OpsMonths scenario) \<and>
   tr_Beg scenario 3 = Txt ''End_Receivable'' \<and>
   last (tr_End_column scenario) = XlError"
  using tr_End_odd [of scenario 119]
  by (simp add: tr_End_column_length tr_End_column_last tr_Beg_def tr_End_header scenario_def)

lemma cf_Cash_odd: "cf_Cash p (2 * k + 3) = XlError"
proof (induction k)
  case 0
  show ?case
    by (subst cf_Cash.simps) (simp add: cf_Cash.simps [of p "Suc 0"] xl_add_def)
next
  case (Suc k)
  have "cf_Cash p (2 * Suc k + 3) = xl_add (cf_Cash p (2 * k + 3)) (cf_Net p (2 * Suc k + 3))"
    by (subst cf_Cash.simps) (simp add: add.commute)
  with Suc show ?case
    by (simp add: xl_add_def)
qed

lemma bs_Check_odd: "bs_Check p (2 * k + 3) = XlError"
  by (simp add: bs_Check_def bs_Assets_def bs_Cash_def cf_Cash_odd xl_sub_def xl_add_def)

text \<open>
  C3: the balance check, total assets minus liabilities and equity, is zero in every month.
  The cash balance and the retained earnings are chained two rows up as well, so the check
  of calendar month 2 (sheet row 3) is an error value, and so is that of the last month.
\<close>

theorem balance_check_is_error:
  "bs_Check scenario 3 = XlError \<and> last (bs_Check_column scenario) = XlError"
  using bs_Check_odd [of scenario 0] bs_Check_odd [of scenario 131]
  by (simp add: bs_Check_column_def last_map)

section \<open>Tax\<close>

lemma tr_Int_row_3: "tr_Int p 3 = XlError"
  by (simp add: tr_Int_def tr_Beg_def tr_End_header xl_mul_def)

lemma tr_Int_row_241: "tr_Int p 241 = XlError"
  using tr_End_odd [of p 118] by (simp add: tr_Int_def tr_Beg_def xl_mul_def)

lemma is_EBT_error:
  assumes "is_IntRev p r = XlError"
  shows "is_EBT p r = XlError" and "is_Tax p r = XlError"
proof -
  show e: "is_EBT p r = XlError"
    using assms by (simp add: is_EBT_def is_EBIT_def is_TotalRev_def xl_add_def xl_sub_def)
  show "is_Tax p r = XlError"
    by (simp add: is_Tax_def e xl_if_pos_def)
qed

text \<open>
  C8: in every month of the income statement the tax is the earnings before tax times the
  tax rate when these are positive, and zero otherwise. The formula of the tax column says
  so, but the interest it rests on is looked up in the two schedules whose rows are chained
  two rows up: in calendar month 26 (sheet row 27, operating month 2) the interest revenue,
  hence the earnings before tax and the tax, are error values, neither a product nor zero,
  and so they are in the last month.
\<close>

theorem tax_is_error_in_month_26:
  "is_EBT scenario 27 = XlError \<and> is_Tax scenario 27 = XlError \<and>
   is_EBT scenario 265 = XlError \<and> is_Tax scenario 265 = XlError"
proof -
  have "is_IntRev scenario 27 = XlError"
    by (simp add: is_IntRev_def is_OpIndex_def Month_def xl_lookup_def tr_Int_row_3
        scenario_def)
  moreover have "is_IntRev scenario 265 = XlError"
    by (simp add: is_IntRev_def is_OpIndex_def Month_def xl_lookup_def tr_Int_row_241
        scenario_def)
  ultimately show ?thesis
    by (simp add: is_EBT_error)
qed

end
